theory Spec2Isabelle
  imports Main
begin

section \<open>Python strings and builtins used by the coordinator\<close>

text \<open>
  Strings are lists of ASCII characters. The Python builtins that the coordinator calls
  on them (\<^verbatim>\<open>str.strip\<close>, \<^verbatim>\<open>str.lower\<close>, \<^verbatim>\<open>str.isdigit\<close>,
  \<^verbatim>\<open>str.startswith\<close>, \<^verbatim>\<open>str.replace\<close> with a one-character pattern and an
  empty replacement, \<^verbatim>\<open>int\<close>, \<^verbatim>\<open>float\<close>, \<^verbatim>\<open>str\<close>) are modelled on ASCII
  input; characters beyond ASCII are neither digits nor whitespace here.
\<close>

definition is_digit :: "char \<Rightarrow> bool" where
  "is_digit c = (c \<in> set ''0123456789'')"

definition is_space :: "char \<Rightarrow> bool" where
  \<comment> \<open>\<^verbatim>\<open>str.isspace\<close> on ASCII: TAB, LF, VT, FF, CR, FS, GS, RS, US and the blank.\<close>
  "is_space c = (c \<in> set [CHR 0x09, CHR 0x0A, CHR 0x0B, CHR 0x0C, CHR 0x0D,
                           CHR 0x1C, CHR 0x1D, CHR 0x1E, CHR 0x1F, CHR '' ''])"

definition is_alpha :: "char \<Rightarrow> bool" where
  "is_alpha c = (c \<in> set ''abcdefghijklmnopqrstuvwxyzABCDEFGHIJKLMNOPQRSTUVWXYZ'')"

definition lower_char :: "char \<Rightarrow> char" where
  "lower_char c = (case map_of (zip ''ABCDEFGHIJKLMNOPQRSTUVWXYZ'' ''abcdefghijklmnopqrstuvwxyz'') c of
                     Some l \<Rightarrow> l | None \<Rightarrow> c)"

definition upper_char :: "char \<Rightarrow> char" where
  "upper_char c = (case map_of (zip ''abcdefghijklmnopqrstuvwxyz'' ''ABCDEFGHIJKLMNOPQRSTUVWXYZ'') c of
                     Some u \<Rightarrow> u | None \<Rightarrow> c)"

definition lower :: "string \<Rightarrow> string" where
  "lower s = map lower_char s"

definition upper :: "string \<Rightarrow> string" where
  "upper s = map upper_char s"

definition strip :: "string \<Rightarrow> string" where
  "strip s = rev (dropWhile is_space (rev (dropWhile is_space s)))"

definition startswith :: "string \<Rightarrow> string \<Rightarrow> bool" where
  "startswith s p = (take (length p) s = p)"

definition remove_char :: "char \<Rightarrow> string \<Rightarrow> string" where
  \<comment> \<open>\<^verbatim>\<open>s.replace(c, "")\<close> for a one-character \<^verbatim>\<open>c\<close>\<close>
  "remove_char c s = filter (\<lambda>x. x \<noteq> c) s"

definition isdigit :: "string \<Rightarrow> bool" where
  "isdigit s = (s \<noteq> [] \<and> list_all is_digit s)"

definition digit_val :: "char \<Rightarrow> nat" where
  "digit_val c = (case map_of (zip ''0123456789'' [0, 1, 2, 3, 4, 5, 6, 7, 8, 9]) c of
                    Some d \<Rightarrow> d | None \<Rightarrow> 0)"

definition digit_char :: "nat \<Rightarrow> char" where
  "digit_char d = (case map_of (zip [0, 1, 2, 3, 4, 5, 6, 7, 8, 9] ''0123456789'') d of
                     Some c \<Rightarrow> c | None \<Rightarrow> CHR ''0'')"

definition nat_of_digits :: "string \<Rightarrow> nat" where
  "nat_of_digits s = foldl (\<lambda>a c. 10 * a + digit_val c) 0 (filter is_digit s)"

fun str_nat :: "nat \<Rightarrow> string" where
  "str_nat n = (if n < 10 then [digit_char n] else str_nat (n div 10) @ [digit_char (n mod 10)])"

declare str_nat.simps [simp del]

definition str_int :: "int \<Rightarrow> string" where
  "str_int i = (if i < 0 then CHR ''-'' # str_nat (nat (- i)) else str_nat (nat i))"

datatype py_exn = ValueError | AttributeError | KeyError | TypeError
  | AuthenticationError | APIConnectionError | OtherException string

text \<open>
  A decimal digit part of a Python numeric literal: digits, with single underscores
  allowed between two digits.
\<close>

fun digitpart :: "string \<Rightarrow> bool" where
  "digitpart [] = False"
| "digitpart [c] = is_digit c"
| "digitpart (c # d # cs) =
     (is_digit c \<and> (if d = CHR ''_'' then digitpart cs else digitpart (d # cs)))"

definition split_sign :: "string \<Rightarrow> string \<times> string" where
  "split_sign s = (case s of
       [] \<Rightarrow> ([], [])
     | c # cs \<Rightarrow> if c = CHR ''+'' \<or> c = CHR ''-'' then ([c], cs) else ([], s))"

definition py_int :: "string \<Rightarrow> py_exn + int" where
  \<comment> \<open>\<^verbatim>\<open>int(s)\<close> in base 10\<close>
  "py_int s = (let (sg, body) = split_sign (strip s) in
     if digitpart body
     then Inr (if sg = ''-'' then - int (nat_of_digits body) else int (nat_of_digits body))
     else Inl ValueError)"

definition pointfloat :: "string \<Rightarrow> bool" where
  \<comment> \<open>mantissa of a float literal: \<^verbatim>\<open>12\<close>, \<^verbatim>\<open>12.\<close>, \<^verbatim>\<open>12.5\<close>, \<^verbatim>\<open>.5\<close>\<close>
  "pointfloat m = (let ip = takeWhile (\<lambda>c. c \<noteq> CHR ''.'') m;
                       r = dropWhile (\<lambda>c. c \<noteq> CHR ''.'') m in
     case r of
       [] \<Rightarrow> digitpart ip
     | _ # fp \<Rightarrow> (ip = [] \<or> digitpart ip) \<and> (fp = [] \<or> digitpart fp) \<and> \<not> (ip = [] \<and> fp = []))"

definition float_literal :: "string \<Rightarrow> bool" where
  \<comment> \<open>the strings \<^verbatim>\<open>float\<close> accepts, after stripping\<close>
  "float_literal s = (let (sg, body) = split_sign s in
     lower body \<in> {''inf'', ''infinity'', ''nan''} \<or>
     (let m = takeWhile (\<lambda>c. c \<noteq> CHR ''e'' \<and> c \<noteq> CHR ''E'') body;
          r = dropWhile (\<lambda>c. c \<noteq> CHR ''e'' \<and> c \<noteq> CHR ''E'') body in
      case r of
        [] \<Rightarrow> pointfloat m
      | _ # ex \<Rightarrow> pointfloat m \<and> digitpart (snd (split_sign ex))))"

text \<open>
  A Python value as the coordinator produces it. A float is kept as the literal that
  \<^verbatim>\<open>float\<close> was applied to: \<open>PyFloat ''29.40''\<close> is the binary64 number
  \<^verbatim>\<open>float("29.40")\<close>.
\<close>

datatype pyval = PyNone | PyInt int | PyFloat string | PyStr string

definition py_float :: "string \<Rightarrow> py_exn + string" where
  "py_float s = (if float_literal (strip s) then Inr (strip s) else Inl ValueError)"

text \<open>
  A raw value of the gateway's JSON: null, an integer or a string (fractional numbers,
  booleans and nested values are outside the model).
\<close>

datatype raw = RawNone | RawInt int | RawStr string

fun truthy :: "raw \<Rightarrow> bool" where
  "truthy RawNone = False"
| "truthy (RawInt n) = (n \<noteq> 0)"
| "truthy (RawStr s) = (s \<noteq> [])"

fun py_str :: "raw \<Rightarrow> string" where
  "py_str RawNone = ''None''"
| "py_str (RawInt n) = str_int n"
| "py_str (RawStr s) = s"

fun of_raw :: "raw \<Rightarrow> pyval" where
  "of_raw RawNone = PyNone"
| "of_raw (RawInt n) = PyInt n"
| "of_raw (RawStr s) = PyStr s"

section \<open>The value normalizer: \<^verbatim>\<open>_convert_sensor_value\<close>\<close>

text \<open>
  \<^verbatim>\<open>re.match(r'^([-+]?\d*\.?\d+)\s*([a-zA-Z%/]+.*)?$', str_value)\<close> on a stripped
  string; the result is group 1 of the match. Group 1 is a sign, a run of digits and,
  when a dot followed by a digit comes next, the dot and the digits after it. What
  follows group 1 is whitespace and then either nothing or a letter, \<^verbatim>\<open>%\<close> or \<^verbatim>\<open>/\<close>
  with no line feed after it (\<^verbatim>\<open>.\<close> does not match a line feed).
\<close>

definition is_unit_start :: "char \<Rightarrow> bool" where
  "is_unit_start c = (is_alpha c \<or> c = CHR ''%'' \<or> c = CHR ''/'')"

definition unit_match :: "string \<Rightarrow> string option" where
  "unit_match s = (let (sg, r0) = split_sign s;
       d1 = takeWhile is_digit r0;
       r1 = dropWhile is_digit r0;
       frac = (case r1 of [] \<Rightarrow> [] | c # cs \<Rightarrow> if c = CHR ''.'' then takeWhile is_digit cs else []);
       numeric_part = (if frac = [] then sg @ d1 else sg @ d1 @ CHR ''.'' # frac);
       r2 = (if frac = [] then r1 else dropWhile is_digit (tl r1));
       r3 = dropWhile is_space r2
     in if frac = [] \<and> d1 = [] then None
        else if r3 = [] \<or> (is_unit_start (hd r3) \<and> CHR 0x0A \<notin> set r3) then Some numeric_part
        else None)"

definition sentinel :: "string \<Rightarrow> bool" where
  "sentinel str_value = (lower str_value \<in> {''--'', ''null'', ''none'', ''n/a''}
     \<or> startswith str_value ''--''
     \<or> strip (remove_char CHR ''.'' (remove_char CHR ''-'' str_value)) = [])"

definition convert_str :: "string \<Rightarrow> py_exn + pyval" where
  \<comment> \<open>the body of the \<^verbatim>\<open>try\<close> block for a string value\<close>
  "convert_str v = (let str_value = strip v in
     if sentinel str_value then Inr PyNone
     else
       let matched = (case unit_match str_value of
           None \<Rightarrow> Inr None
         | Some numeric_part \<Rightarrow>
             if CHR ''.'' \<notin> set numeric_part
             then (case py_int numeric_part of
                     Inr n \<Rightarrow> Inr (Some (PyInt n))
                   | Inl e \<Rightarrow> if e = ValueError then Inr None else Inl e)
             else (case py_float numeric_part of
                     Inr f \<Rightarrow> Inr (Some (PyFloat f))
                   | Inl e \<Rightarrow> if e = ValueError then Inr None else Inl e))
       in case matched of
           Inl e \<Rightarrow> Inl e
         | Inr (Some r) \<Rightarrow> Inr r
         | Inr None \<Rightarrow>
            (case py_int str_value of
               Inr n \<Rightarrow> Inr (PyInt n)
             | Inl e \<Rightarrow> if e \<noteq> ValueError then Inl e else
                (case py_float str_value of
                   Inr f \<Rightarrow> Inr (PyFloat f)
                 | Inl e' \<Rightarrow> if e' \<noteq> ValueError then Inl e' else Inr (PyStr str_value))))"

definition convert_sensor_value :: "raw \<Rightarrow> string \<Rightarrow> py_exn + pyval" where
  "convert_sensor_value v unit = (
     if \<not> truthy v then Inr PyNone
     else case (case v of
                  RawInt n \<Rightarrow> Inr (PyInt n)
                | RawStr s \<Rightarrow> convert_str s
                | RawNone \<Rightarrow> convert_str (py_str v)) of
            Inr r \<Rightarrow> Inr r
          | Inl err \<Rightarrow> Inr (if truthy v then PyStr (py_str v) else PyNone))"


section \<open>Dictionaries\<close>

text \<open>
  A Python dictionary whose iteration order matters is a list of key-value pairs with
  distinct keys, in insertion order: \<open>dict_get\<close> is \<^verbatim>\<open>d.get(k)\<close> and \<open>dict_set\<close> is
  \<^verbatim>\<open>d[k] = v\<close>, which keeps the position of a key that is already there.
\<close>

definition dict_get :: "('k \<times> 'v) list \<Rightarrow> 'k \<Rightarrow> 'v option" where
  "dict_get d k = map_of d k"

fun dict_set :: "('k \<times> 'v) list \<Rightarrow> 'k \<Rightarrow> 'v \<Rightarrow> ('k \<times> 'v) list" where
  "dict_set [] k v = [(k, v)]"
| "dict_set ((k', v') # d) k v = (if k' = k then (k, v) # d else (k', v') # dict_set d k v)"

definition get_or :: "(string \<times> string) list \<Rightarrow> string \<Rightarrow> string" where
  \<comment> \<open>\<^verbatim>\<open>d.get(k) or ""\<close>\<close>
  "get_or d k = (case dict_get d k of Some v \<Rightarrow> v | None \<Rightarrow> [])"

section \<open>The entity's unique id: \<^verbatim>\<open>EcowittLocalSensor.__init__\<close>\<close>

text \<open>
  \<^verbatim>\<open>DOMAIN\<close> is a constant of \<^verbatim>\<open>const.py\<close> and \<^verbatim>\<open>entry_id\<close> the id of the config
  entry; both are parameters. A hardware id that is \<^verbatim>\<open>None\<close> or empty is falsy.
\<close>

definition unique_id :: "string \<Rightarrow> string \<Rightarrow> string option \<Rightarrow> string \<Rightarrow> string" where
  "unique_id DOMAIN entry_id hardware_id sensor_key =
     (case hardware_id of
        None \<Rightarrow> DOMAIN @ ''_'' @ entry_id @ ''_'' @ sensor_key
      | Some h \<Rightarrow> if h \<noteq> [] then DOMAIN @ ''_'' @ h @ ''_'' @ sensor_key
                  else DOMAIN @ ''_'' @ entry_id @ ''_'' @ sensor_key)"

section \<open>Gateway information: \<^verbatim>\<open>_process_gateway_info\<close>\<close>

definition is_word_char :: "char \<Rightarrow> bool" where
  \<comment> \<open>\<^verbatim>\<open>\w\<close> on ASCII\<close>
  "is_word_char c = (is_alpha c \<or> is_digit c \<or> c = CHR ''_'')"

definition extract_model_from_firmware :: "string \<Rightarrow> string" where
  "extract_model_from_firmware firmware_version = (
     if firmware_version = [] \<or> firmware_version = ''Unknown'' then ''Unknown''
     else
       let model = strip (takeWhile (\<lambda>c. c \<noteq> CHR ''_'') firmware_version) in
       if CHR ''_'' \<in> set firmware_version \<and> model \<noteq> [] \<and> startswith (upper model) ''GW''
       then model
       else if startswith (upper firmware_version) ''GW'' \<and> CHR ''.'' \<notin> set firmware_version
       then strip firmware_version
       else if startswith firmware_version ''GW''
               \<and> takeWhile is_word_char (drop 2 firmware_version) \<noteq> []
       then ''GW'' @ takeWhile is_word_char (drop 2 firmware_version)
       else ''Unknown'')"

text \<open>
  The coordinator's cache \<^verbatim>\<open>self._gateway_info\<close> (a dictionary, empty at start) and the
  number of \<^verbatim>\<open>api.get_version()\<close> calls issued so far. The gateway's answers are a
  parameter: \<open>get_version n\<close> is the outcome of the call issued after \<open>n\<close> earlier
  ones, a dictionary of strings or an exception.
\<close>

record gateway_cache =
  gateway_info :: "(string \<times> string) list"
  version_calls :: nat

definition process_gateway_info ::
  "string \<Rightarrow> (nat \<Rightarrow> py_exn + (string \<times> string) list) \<Rightarrow> gateway_cache
    \<Rightarrow> (string \<times> string) list \<times> gateway_cache" where
  "process_gateway_info host get_version st = (
     if gateway_info st = [] then
       let st1 = st\<lparr>version_calls := Suc (version_calls st)\<rparr>;
           info = (case get_version (version_calls st) of
              Inr version_info \<Rightarrow>
                let firmware_version =
                      (case dict_get version_info ''version'' of Some v \<Rightarrow> v | None \<Rightarrow> ''Unknown'');
                    model0 = extract_model_from_firmware firmware_version;
                    model = (if model0 = [] \<or> model0 = ''Unknown''
                             then (case dict_get version_info ''stationtype'' of
                                     Some v \<Rightarrow> v | None \<Rightarrow> ''Unknown'')
                             else model0)
                in [(''model'', model), (''firmware_version'', firmware_version), (''host'', host),
                    (''gateway_id'', (case dict_get version_info ''stationtype'' of
                                        Some v \<Rightarrow> v | None \<Rightarrow> ''unknown''))]
            | Inl err \<Rightarrow>
                [(''model'', ''Unknown''), (''firmware_version'', ''Unknown''), (''host'', host),
                 (''gateway_id'', ''unknown'')])
       in (info, st1\<lparr>gateway_info := info\<rparr>)
     else (gateway_info st, st))"

text \<open>A session's lookups in a row: the dictionaries returned, and the cache after them.\<close>

fun gateway_lookups ::
  "string \<Rightarrow> (nat \<Rightarrow> py_exn + (string \<times> string) list) \<Rightarrow> nat \<Rightarrow> gateway_cache
    \<Rightarrow> (string \<times> string) list list \<times> gateway_cache" where
  "gateway_lookups host get_version 0 st = ([], st)"
| "gateway_lookups host get_version (Suc n) st =
     (let (info, st1) = process_gateway_info host get_version st;
          (infos, st2) = gateway_lookups host get_version n st1
      in (info # infos, st2))"

section \<open>The sensor mapper's state and the tables of \<^verbatim>\<open>const.py\<close>\<close>

text \<open>
  The coordinator reads and writes two dictionaries of the sensor mapper directly:
  \<^verbatim>\<open>_sensor_info\<close> (hardware id to unit attributes, iterated in insertion order) and
  \<^verbatim>\<open>_hardware_mapping\<close> (wire key to hardware id). A unit's attribute that is \<open>None\<close>
  here is a key the unit's dictionary does not have; the attributes are strings.
\<close>

record hardware_info =
  hi_hardware_id :: string
  hi_sensor_type :: string
  hi_channel :: "string option"
  hi_device_model :: "string option"
  hi_battery :: "string option"
  hi_signal :: "string option"

record mapper =
  sensor_info :: "(string \<times> hardware_info) list"
  hardware_mapping :: "string \<rightharpoonup> string"

text \<open>
  The mapper's methods are not part of the coordinator; they are parameters, each either
  returning a value or raising.
\<close>

record mapper_ops =
  get_hardware_id :: "mapper \<Rightarrow> string \<Rightarrow> py_exn + string option"
  generate_entity_id :: "mapper \<Rightarrow> string \<Rightarrow> string option \<Rightarrow> py_exn + string \<times> string"
  get_sensor_info :: "mapper \<Rightarrow> string \<Rightarrow> py_exn + hardware_info option"

text \<open>
  The tables imported from \<^verbatim>\<open>const.py\<close> are parameters too: three dictionaries from
  wire keys to dictionaries of strings, and two sets of wire keys.
\<close>

record const_tables =
  SENSOR_TYPES :: "string \<rightharpoonup> (string \<times> string) list"
  BATTERY_SENSORS :: "string \<rightharpoonup> (string \<times> string) list"
  SYSTEM_SENSORS :: "string \<rightharpoonup> (string \<times> string) list"
  GATEWAY_SENSORS :: "string set"
  WS90_HEX_SENSORS :: "string set"

definition table_get :: "(string \<rightharpoonup> (string \<times> string) list) \<Rightarrow> string \<Rightarrow> (string \<times> string) list" where
  \<comment> \<open>\<^verbatim>\<open>TABLE.get(key, {})\<close>\<close>
  "table_get tbl k = (case tbl k of Some d \<Rightarrow> d | None \<Rightarrow> [])"

section \<open>Mapping refresh: \<^verbatim>\<open>_update_sensor_mapping\<close>\<close>

record mapping_entry =
  me_id :: string
  me_type :: string
  me_channel :: "string option"
  me_battery :: "string option"
  me_signal :: "string option"

text \<open>
  \<^verbatim>\<open>update_mapping\<close> mutates the mapper in place and may raise part-way: its outcome is
  the exception, if any, and the mapper as it left it. \<^verbatim>\<open>get_mapping_stats\<close> only
  reads. Whatever is raised inside the \<^verbatim>\<open>try\<close> is logged and swallowed.
\<close>

definition update_sensor_mapping ::
  "(mapping_entry list \<Rightarrow> mapper \<Rightarrow> py_exn option \<times> mapper) \<Rightarrow> (py_exn + mapping_entry list)
    \<Rightarrow> mapper \<Rightarrow> py_exn option \<times> mapper" where
  "update_sensor_mapping update_mapping fetched m =
     (case fetched of
        Inl err \<Rightarrow> (None, m)
      | Inr sensor_mappings \<Rightarrow> (None, snd (update_mapping sensor_mappings m)))"

definition is_sentinel_id :: "string \<Rightarrow> bool" where
  "is_sentinel_id h = (h = [] \<or> upper h \<in> {''FFFFFFFE'', ''FFFFFFFF'', ''00000000''})"

definition update_mapping ::
  "(mapping_entry \<Rightarrow> hardware_info) \<Rightarrow> (mapping_entry \<Rightarrow> string list) \<Rightarrow> mapping_entry list
    \<Rightarrow> mapper \<Rightarrow> py_exn option \<times> mapper" where
  \<comment> \<open>Modelled from the spec: \<^verbatim>\<open>SensorMapper.update_mapping\<close> is in \<^verbatim>\<open>sensor_mapper.py\<close>,
     which is not among the sources. The spec: it replaces the entire hardware-unit table
     and wire-key mapping in one atomic step from the snapshot, and discards entries with
     a sentinel or empty hardware id. How an entry becomes a unit and which wire keys it
     owns are the parameters \<open>unit_of\<close> and \<open>keys_of\<close>.\<close>
  "update_mapping unit_of keys_of snapshot m =
     (None, foldl (\<lambda>acc e.
          if is_sentinel_id (me_id e) then acc
          else \<lparr>sensor_info = dict_set (sensor_info acc) (me_id e) (unit_of e),
                hardware_mapping = foldl (\<lambda>hm k. hm(k \<mapsto> me_id e)) (hardware_mapping acc) (keys_of e)\<rparr>)
        \<lparr>sensor_info = [], hardware_mapping = Map.empty\<rparr> snapshot)"

definition table_ops :: mapper_ops where
  \<comment> \<open>Modelled from the spec: the lookups of \<^verbatim>\<open>sensor_mapper.py\<close>, which is not among the
     sources. The spec: \<^verbatim>\<open>get_hardware_id\<close> is a pure lookup, null when no unit owns the
     key; \<^verbatim>\<open>get_sensor_info\<close> returns the unit or null; the entity key is derived from the
     wire key and the hardware id. The spec does not give the key's format: here it is
     the wire key, an underscore and the hardware id (the wire key alone when there is
     no hardware id), and the display name is the wire key.\<close>
  "table_ops = \<lparr>
     get_hardware_id = (\<lambda>m k. Inr (hardware_mapping m k)),
     generate_entity_id = (\<lambda>m k h. Inr (case h of None \<Rightarrow> (''sensor.ecowitt_'' @ k, k)
                                            | Some x \<Rightarrow> (''sensor.ecowitt_'' @ k @ ''_'' @ lower x, k))),
     get_sensor_info = (\<lambda>m h. Inr (dict_get (sensor_info m) h))\<rparr>"

section \<open>Telemetry processing: \<^verbatim>\<open>_process_live_data\<close>\<close>

text \<open>
  An item of \<^verbatim>\<open>all_sensor_items\<close> is a dictionary with the keys \<^verbatim>\<open>id\<close> and \<^verbatim>\<open>val\<close>:
  \<open>it_id\<close> is \<^verbatim>\<open>item.get("id")\<close>, a string or \<open>None\<close>, and \<open>it_val\<close> is
  \<^verbatim>\<open>item.get("val")\<close>.
\<close>

record item =
  it_id :: "string option"
  it_val :: raw

text \<open>
  One processed reading, an entry of \<^verbatim>\<open>sensors_data\<close>. The \<^verbatim>\<open>last_update\<close> attribute is
  the wall-clock time and is left out.
\<close>

record reading =
  rd_entity_id :: string
  rd_name :: string
  rd_state :: pyval
  rd_unit_of_measurement :: "string option"
  rd_device_class :: "string option"
  rd_category :: string
  rd_sensor_key :: string
  rd_hardware_id :: "string option"
  rd_raw_value :: pyval
  rd_attributes :: "(string \<times> pyval) list"

definition is_gateway_sensor :: "const_tables \<Rightarrow> string \<Rightarrow> bool \<Rightarrow> bool" where
  "is_gateway_sensor C sensor_key ws90_present = (
     if sensor_key \<in> GATEWAY_SENSORS C then True
     else if sensor_key \<in> {''3'', ''5''} \<and> \<not> ws90_present then True
     else if sensor_key \<in> WS90_HEX_SENSORS C \<and> ws90_present then False
     else True)"

definition opt_val :: "string option \<Rightarrow> pyval" where
  "opt_val x = (case x of None \<Rightarrow> PyNone | Some s \<Rightarrow> PyStr s)"

definition int_of_raw :: "raw \<Rightarrow> py_exn + int" where
  \<comment> \<open>\<^verbatim>\<open>int(sensor_value)\<close>\<close>
  "int_of_raw v = (case v of RawInt n \<Rightarrow> Inr n | RawStr s \<Rightarrow> py_int s | RawNone \<Rightarrow> Inl TypeError)"

definition categorize :: "const_tables \<Rightarrow> string \<Rightarrow> string \<times> string \<times> string" where
  \<comment> \<open>category, device class and unit of a wire key (lines 319 to 337)\<close>
  "categorize C sensor_key = (
     let sensor_type_info = table_get (SENSOR_TYPES C) sensor_key;
         battery_info = table_get (BATTERY_SENSORS C) sensor_key;
         system_info = table_get (SYSTEM_SENSORS C) sensor_key
     in if battery_info \<noteq> [] then (''diagnostic'', ''battery'', ''%'')
        else if system_info \<noteq> []
        then (''system'', get_or system_info ''device_class'', get_or system_info ''unit'')
        else (''sensor'', get_or sensor_type_info ''device_class'', get_or sensor_type_info ''unit''))"

definition convert_value :: "const_tables \<Rightarrow> string \<Rightarrow> raw \<Rightarrow> string \<Rightarrow> py_exn + pyval" where
  \<comment> \<open>the battery scale conversion, else the generic normalizer (lines 352 to 366)\<close>
  "convert_value C sensor_key sensor_value unit = (
     if table_get (BATTERY_SENSORS C) sensor_key \<noteq> [] \<and> truthy sensor_value
        \<and> isdigit (py_str sensor_value)
     then (case int_of_raw sensor_value of
             Inl e \<Rightarrow> Inl e
           | Inr int_value \<Rightarrow>
               if int_value \<le> 5 then Inr (PyStr (str_int (int_value * 20)))
               else Inr (of_raw sensor_value))
     else convert_sensor_value sensor_value unit)"

definition process_item ::
  "const_tables \<Rightarrow> mapper_ops \<Rightarrow> mapper \<Rightarrow> bool \<Rightarrow> bool \<Rightarrow> item \<Rightarrow> py_exn + reading option" where
  \<comment> \<open>one pass through the body of the loop over \<^verbatim>\<open>all_sensor_items\<close>; \<open>Inr None\<close> is
     \<^verbatim>\<open>continue\<close>, \<open>Inl\<close> an exception leaving the loop\<close>
  "process_item C ops m include_inactive ws90_present it = (
     let sensor_key = (case it_id it of Some k \<Rightarrow> k | None \<Rightarrow> []);
         sensor_value = (if truthy (it_val it) then it_val it else RawStr [])
     in if sensor_key = [] then Inr None
        else if \<not> truthy sensor_value \<and> \<not> include_inactive then Inr None
        else
          case (if \<not> is_gateway_sensor C sensor_key ws90_present
                then get_hardware_id ops m sensor_key else Inr None) of
            Inl e \<Rightarrow> Inl e
          | Inr hardware_id \<Rightarrow>
          case generate_entity_id ops m sensor_key hardware_id of
            Inl e \<Rightarrow> Inl e
          | Inr (entity_id, friendly_name) \<Rightarrow>
          let (category, device_class, unit) = categorize C sensor_key in
          case (case hardware_id of
                  None \<Rightarrow> Inr []
                | Some h \<Rightarrow> if h = [] then Inr [] else
                   (case get_sensor_info ops m h of
                      Inl e \<Rightarrow> Inl e
                    | Inr None \<Rightarrow> Inr []
                    | Inr (Some hardware_info) \<Rightarrow>
                        Inr [(''hardware_id'', PyStr h),
                             (''channel'', opt_val (hi_channel hardware_info)),
                             (''device_model'', opt_val (hi_device_model hardware_info)),
                             (''battery'', opt_val (hi_battery hardware_info)),
                             (''signal'', opt_val (hi_signal hardware_info))])) of
            Inl e \<Rightarrow> Inl e
          | Inr sensor_details \<Rightarrow>
          case convert_value C sensor_key sensor_value unit of
            Inl e \<Rightarrow> Inl e
          | Inr converted_value \<Rightarrow>
              Inr (Some \<lparr>rd_entity_id = entity_id, rd_name = friendly_name,
                    rd_state = converted_value, rd_unit_of_measurement = Some unit,
                    rd_device_class = Some device_class, rd_category = category,
                    rd_sensor_key = sensor_key, rd_hardware_id = hardware_id,
                    rd_raw_value = of_raw sensor_value,
                    rd_attributes = (''sensor_key'', PyStr sensor_key) # sensor_details\<rparr>))"


subsection \<open>Diagnostic readings: \<^verbatim>\<open>_add_diagnostic_and_signal_sensors\<close>\<close>








subsection \<open>The rain section and the WS90 unit\<close>






fun contains :: "string \<Rightarrow> string \<Rightarrow> bool" where
  \<comment> \<open>\<^verbatim>\<open>p in s\<close> on strings\<close>
  "contains p [] = (p = [])"
| "contains p (c # cs) = (startswith (c # cs) p \<or> contains p cs)"

fun find_wh90 :: "(string \<times> hardware_info) list \<Rightarrow> string option" where
  \<comment> \<open>the first unit, in the table's order, whose model contains \<^verbatim>\<open>wh90\<close>\<close>
  "find_wh90 [] = None"
| "find_wh90 ((hardware_id, info) # rest) =
     (if contains ''wh90'' (lower (case hi_device_model info of Some d \<Rightarrow> d | None \<Rightarrow> []))
      then Some hardware_id else find_wh90 rest)"








section \<open>Example inputs\<close>

abbreviation example_tables :: const_tables where
  "example_tables \<equiv> \<lparr>
     SENSOR_TYPES = [''tempf'' \<mapsto> [(''unit'', ''F''), (''device_class'', ''temperature'')]],
     BATTERY_SENSORS = [''soilbatt1'' \<mapsto> [(''name'', ''Soil Battery 1'')]],
     SYSTEM_SENSORS = [''runtime'' \<mapsto> [(''unit'', ''s'')]],
     GATEWAY_SENSORS = {''tempinf''},
     WS90_HEX_SENSORS = {''3'', ''5'', ''0x02''}\<rparr>"

abbreviation empty_mapper :: mapper where
  "empty_mapper \<equiv> \<lparr>sensor_info = [], hardware_mapping = Map.empty\<rparr>"






section \<open>Properties of the value normalizer\<close>


lemma py_int_err: "py_int s = Inl e \<Longrightarrow> e = ValueError"
  by (auto simp: py_int_def Let_def split: prod.splits if_splits)

lemma py_float_err: "py_float s = Inl e \<Longrightarrow> e = ValueError"
  by (auto simp: py_float_def split: if_splits)

lemma convert_str_total: "\<exists>r. convert_str s = Inr r"
  by (auto simp: convert_str_def Let_def split: option.splits sum.splits dest: py_int_err py_float_err)

lemma convert_str_None: "(convert_str s = Inr PyNone) = sentinel (strip s)"
  by (auto simp: convert_str_def Let_def split: option.splits sum.splits dest: py_int_err py_float_err)


lemma convert_str_fallback:
  "\<not> sentinel (strip s) \<Longrightarrow> unit_match (strip s) = None \<Longrightarrow> py_int (strip s) = Inl ValueError
   \<Longrightarrow> py_float (strip s) = Inl ValueError \<Longrightarrow> convert_str s = Inr (PyStr (strip s))"
  by (simp add: convert_str_def Let_def)
























lemma convert_string:
  "s \<noteq> [] \<Longrightarrow> convert_sensor_value (RawStr s) u = convert_str s"
proof -
  assume ne: "s \<noteq> []"
  obtain r where r: "convert_str s = Inr r" using convert_str_total by blast
  show ?thesis using ne by (simp add: convert_sensor_value_def r)
qed





text \<open>
  Claim C4, as the code has it. The normalizer never raises to its caller: for every raw
  value (null, integer or string) it returns a value. It returns \<open>PyNone\<close> exactly when the
  value is falsy or is a string whose stripped text is a sentinel; a \<^verbatim>\<open>ValueError\<close> raised
  inside by \<^verbatim>\<open>int\<close> and \<^verbatim>\<open>float\<close> is caught there and the stripped string is returned,
  not \<open>PyNone\<close>.
\<close>

theorem convert_sensor_value_never_raises:
  "\<exists>r. convert_sensor_value v u = Inr r \<and>
     ((r = PyNone) = (\<not> truthy v \<or> (\<exists>s. v = RawStr s \<and> sentinel (strip s)))) \<and>
     (\<forall>s. v = RawStr s \<and> s \<noteq> [] \<and> \<not> sentinel (strip s) \<and> unit_match (strip s) = None \<and>
          py_int (strip s) = Inl ValueError \<and> py_float (strip s) = Inl ValueError \<longrightarrow>
          r = PyStr (strip s))"
proof (cases v)
  case RawNone then show ?thesis by (simp add: convert_sensor_value_def)
next
  case (RawInt n) then show ?thesis by (simp add: convert_sensor_value_def)
next
  case (RawStr s)
  show ?thesis
  proof (cases "s = []")
    case True with RawStr show ?thesis by (simp add: convert_sensor_value_def)
  next
    case False
    obtain r where r: "convert_str s = Inr r" using convert_str_total by blast
    have a: "convert_sensor_value v u = Inr r" by (simp only: RawStr convert_string [OF False] r)
    have b: "(r = PyNone) = sentinel (strip s)" using convert_str_None [of s] r by simp
    have c: "\<not> sentinel (strip s) \<and> unit_match (strip s) = None \<and>
          py_int (strip s) = Inl ValueError \<and> py_float (strip s) = Inl ValueError \<longrightarrow>
          r = PyStr (strip s)"
    proof (intro impI, elim conjE)
      assume h: "\<not> sentinel (strip s)" "unit_match (strip s) = None"
        "py_int (strip s) = Inl ValueError" "py_float (strip s) = Inl ValueError"
      have "convert_str s = Inr (PyStr (strip s))" using h by (rule convert_str_fallback)
      with r show "r = PyStr (strip s)" by simp
    qed
    have t: "truthy v" using RawStr False by simp
    show ?thesis
    proof (intro exI conjI)
      show "convert_sensor_value v u = Inr r" by (rule a)
      show "(r = PyNone) = (\<not> truthy v \<or> (\<exists>s. v = RawStr s \<and> sentinel (strip s)))"
        using b t RawStr by simp
      show "\<forall>s. v = RawStr s \<and> s \<noteq> [] \<and> \<not> sentinel (strip s) \<and> unit_match (strip s) = None \<and>
          py_int (strip s) = Inl ValueError \<and> py_float (strip s) = Inl ValueError \<longrightarrow>
          r = PyStr (strip s)"
        using c RawStr by simp
    qed
  qed
qed

lemma abc_facts:
  "strip ''abc'' = ''abc''" "\<not> sentinel ''abc''" "unit_match ''abc'' = None"
  "py_int ''abc'' = Inl ValueError" "py_float ''abc'' = Inl ValueError"
  by code_simp+

theorem convert_sensor_value_never_raises_witness:
  "truthy (RawStr ''abc'') \<and> py_int (strip ''abc'') = Inl ValueError \<and>
   convert_sensor_value (RawStr ''abc'') '''' = Inr (PyStr ''abc'')"
proof -
  from convert_sensor_value_never_raises [of "RawStr ''abc''" "''''"]
  obtain r where r: "convert_sensor_value (RawStr ''abc'') '''' = Inr r"
    and f: "\<forall>s. RawStr ''abc'' = RawStr s \<and> s \<noteq> [] \<and> \<not> sentinel (strip s) \<and> unit_match (strip s) = None \<and>
          py_int (strip s) = Inl ValueError \<and> py_float (strip s) = Inl ValueError \<longrightarrow>
          r = PyStr (strip s)" by blast
  from f [rule_format, of "''abc''"] have "r = PyStr ''abc''" by (simp add: abc_facts)
  with r show ?thesis by (simp add: abc_facts)
qed

text \<open>
  The text \<^verbatim>\<open>abc\<close> makes \<^verbatim>\<open>int\<close> and \<^verbatim>\<open>float\<close> raise inside the normalizer, and the
  result is not \<open>PyNone\<close>.
\<close>

theorem convert_sensor_value_parse_error_counterexample:
  "py_int (strip ''abc'') = Inl ValueError \<and> py_float (strip ''abc'') = Inl ValueError \<and>
   convert_sensor_value (RawStr ''abc'') '''' \<noteq> Inr PyNone"
  by code_simp



section \<open>Properties of the gateway cache, the unique id and the mapping refresh\<close>

lemma process_gateway_info_nonempty:
  "gateway_info (snd (process_gateway_info host gv st)) \<noteq> []"
  by (simp add: process_gateway_info_def Let_def split: sum.splits)

lemma process_gateway_info_cached:
  "gateway_info st \<noteq> [] \<Longrightarrow> process_gateway_info host gv st = (gateway_info st, st)"
  by (simp add: process_gateway_info_def)

lemma gateway_lookups_cached:
  "gateway_info st \<noteq> [] \<Longrightarrow> gateway_lookups host gv n st = (replicate n (gateway_info st), st)"
  by (induction n) (simp_all add: process_gateway_info_cached)

lemma process_gateway_info_fst:
  "gateway_info (snd (process_gateway_info host gv st)) = fst (process_gateway_info host gv st)"
  by (simp add: process_gateway_info_def Let_def split: sum.splits)

text \<open>
  Claim C10. Whatever the first lookup did (used the cache, fetched the version, or got an
  exception and built the \<^verbatim>\<open>Unknown\<close> placeholder), every later lookup of the session
  returns the dictionary the first one returned and leaves the cache and the number of
  version fetches as they were, whatever the gateway would answer then. A first lookup on
  the empty cache issues exactly one fetch, and a failed fetch gives the placeholder.
\<close>

theorem process_gateway_info_cached_for_session:
  "process_gateway_info host get_version st = (info, st') \<Longrightarrow>
   gateway_lookups host get_version' n st' = (replicate n info, st') \<and>
   version_calls st' \<le> Suc (version_calls st) \<and>
   (gateway_info st = [] \<longrightarrow> version_calls st' = Suc (version_calls st) \<and>
      (\<forall>err. get_version (version_calls st) = Inl err \<longrightarrow>
         info = [(''model'', ''Unknown''), (''firmware_version'', ''Unknown''), (''host'', host),
                 (''gateway_id'', ''unknown'')]))"
proof -
  assume a: "process_gateway_info host get_version st = (info, st')"
  have ne: "gateway_info st' \<noteq> []" using process_gateway_info_nonempty [of host get_version st] a by simp
  have eq: "gateway_info st' = info" using process_gateway_info_fst [of host get_version st] a by simp
  have 1: "gateway_lookups host get_version' n st' = (replicate n info, st')"
    using gateway_lookups_cached [OF ne, of host get_version' n] eq by simp
  have 2: "version_calls st' \<le> Suc (version_calls st)"
    using a by (auto simp: process_gateway_info_def Let_def split: if_splits)
  have 3: "gateway_info st = [] \<longrightarrow> version_calls st' = Suc (version_calls st) \<and>
      (\<forall>err. get_version (version_calls st) = Inl err \<longrightarrow>
         info = [(''model'', ''Unknown''), (''firmware_version'', ''Unknown''), (''host'', host),
                 (''gateway_id'', ''unknown'')])"
    using a by (auto simp: process_gateway_info_def Let_def split: if_splits)
  from 1 2 3 show ?thesis by (intro conjI)
qed

text \<open>
  Claim C6, as the code has it. The unique id is a function of its inputs, so equal inputs
  give equal ids. For one wire key, two different non-empty hardware ids give different
  ids; a non-empty hardware id and the config-entry fallback give different ids provided
  the hardware id is not the config entry's id.
\<close>

theorem unique_id_injective:
  "(hw = hw' \<and> k = k' \<longrightarrow> unique_id D e hw k = unique_id D e hw' k') \<and>
   (h1 \<noteq> [] \<and> h2 \<noteq> [] \<and> h1 \<noteq> h2 \<longrightarrow> unique_id D e (Some h1) k \<noteq> unique_id D e (Some h2) k) \<and>
   (h \<noteq> [] \<and> h \<noteq> e \<longrightarrow> unique_id D e (Some h) k \<noteq> unique_id D e None k)"
  by (simp add: unique_id_def)

theorem unique_id_injective_witness:
  "unique_id ''ecowitt_local'' ''01JABC'' (Some ''D8174'') ''soilmoisture1''
     \<noteq> unique_id ''ecowitt_local'' ''01JABC'' (Some ''D8175'') ''soilmoisture1'' \<and>
   unique_id ''ecowitt_local'' ''01JABC'' (Some ''D8174'') ''soilmoisture1''
     \<noteq> unique_id ''ecowitt_local'' ''01JABC'' None ''soilmoisture1''"
  using unique_id_injective [of "Some ''D8174''" "Some ''D8174''" "''soilmoisture1''" "''soilmoisture1''"
      "''ecowitt_local''" "''01JABC''" "''D8174''" "''D8175''" "''D8174''"]
  by simp

text \<open>
  A hardware id equal to the config entry's id gives the id of the fallback.
\<close>

theorem unique_id_collision_counterexample:
  "unique_id ''ecowitt_local'' ''abc'' (Some ''abc'') ''tempf'' = unique_id ''ecowitt_local'' ''abc'' None ''tempf''"
  by (simp add: unique_id_def)

theorem process_gateway_info_cached_for_session_witness:
  "gateway_lookups ''192.168.1.5'' (\<lambda>n. Inr [(''version'', ''GW1100A_V2.4.3'')]) 3
     (snd (process_gateway_info ''192.168.1.5'' (\<lambda>n. Inl APIConnectionError)
        \<lparr>gateway_info = [], version_calls = 0\<rparr>))
   = (replicate 3 [(''model'', ''Unknown''), (''firmware_version'', ''Unknown''),
                   (''host'', ''192.168.1.5''), (''gateway_id'', ''unknown'')],
      \<lparr>gateway_info = [(''model'', ''Unknown''), (''firmware_version'', ''Unknown''),
                   (''host'', ''192.168.1.5''), (''gateway_id'', ''unknown'')], version_calls = 1\<rparr>)"
proof -
  have a: "process_gateway_info ''192.168.1.5'' (\<lambda>n. Inl APIConnectionError)
        \<lparr>gateway_info = [], version_calls = 0\<rparr> =
      ([(''model'', ''Unknown''), (''firmware_version'', ''Unknown''),
                   (''host'', ''192.168.1.5''), (''gateway_id'', ''unknown'')],
       \<lparr>gateway_info = [(''model'', ''Unknown''), (''firmware_version'', ''Unknown''),
                   (''host'', ''192.168.1.5''), (''gateway_id'', ''unknown'')], version_calls = 1\<rparr>)"
    by (simp add: process_gateway_info_def Let_def)
  show ?thesis
    using process_gateway_info_cached_for_session [OF a, of "\<lambda>n. Inr [(''version'', ''GW1100A_V2.4.3'')]" 3] a
    by simp
qed

text \<open>
  Claim C9. When the fetch raises, the refresh raises nothing and the mapper is untouched.
  When the fetch returns the empty list, \<^verbatim>\<open>update_mapping\<close> is applied to it, and with the
  \<^verbatim>\<open>update_mapping\<close> of the spec both tables are empty afterwards, whatever they held.
\<close>

theorem update_sensor_mapping_swallows_and_wipes:
  "update_sensor_mapping upd (Inl err) m = (None, m) \<and>
   update_sensor_mapping upd (Inr []) m = (None, snd (upd [] m)) \<and>
   update_sensor_mapping (update_mapping unit_of keys_of) (Inr []) m =
     (None, \<lparr>sensor_info = [], hardware_mapping = Map.empty\<rparr>)"
  by (simp add: update_sensor_mapping_def update_mapping_def)

section \<open>Properties of the telemetry loop\<close>











lemma process_item_reading:
  assumes "process_item C ops m inc ws it = Inr (Some r)"
  shows "it_id it = Some (rd_sensor_key r) \<and> rd_sensor_key r \<noteq> [] \<and>
         rd_category r = fst (categorize C (rd_sensor_key r)) \<and>
         (\<exists>u. convert_value C (rd_sensor_key r) (if truthy (it_val it) then it_val it else RawStr []) u
               = Inr (rd_state r))"
  using assms
  by (auto simp: process_item_def Let_def split: if_splits sum.splits option.splits prod.splits)

text \<open>
  Claim C3, as the code has it. A pair processed into a reading keeps its wire key, and
  the reading's category is \<^verbatim>\<open>diagnostic\<close> when the battery table has a non-empty entry for
  the key, \<^verbatim>\<open>system\<close> when the system table has one, and \<^verbatim>\<open>sensor\<close> otherwise.
\<close>

theorem category_by_table:
  "process_item C ops m inc ws it = Inr (Some r) \<Longrightarrow>
   it_id it = Some (rd_sensor_key r) \<and>
   rd_category r =
     (if table_get (BATTERY_SENSORS C) (rd_sensor_key r) \<noteq> [] then ''diagnostic''
      else if table_get (SYSTEM_SENSORS C) (rd_sensor_key r) \<noteq> [] then ''system''
      else ''sensor'')"
  using process_item_reading [of C ops m inc ws it r]
  by (simp add: categorize_def Let_def)

lemma soilbatt_item:
  "process_item example_tables table_ops empty_mapper False False
     \<lparr>it_id = Some ''soilbatt1'', it_val = RawStr ''3''\<rparr> =
   Inr (Some \<lparr>rd_entity_id = ''sensor.ecowitt_soilbatt1'', rd_name = ''soilbatt1'',
          rd_state = PyStr ''60'', rd_unit_of_measurement = Some ''%'',
          rd_device_class = Some ''battery'', rd_category = ''diagnostic'',
          rd_sensor_key = ''soilbatt1'', rd_hardware_id = None,
          rd_raw_value = PyStr ''3'',
          rd_attributes = [(''sensor_key'', PyStr ''soilbatt1'')]\<rparr>)"
  by code_simp

theorem category_by_table_witness:
  "map_sum id (map_option rd_category)
     (process_item example_tables table_ops empty_mapper False False
        \<lparr>it_id = Some ''soilbatt1'', it_val = RawStr ''3''\<rparr>) = Inr (Some ''diagnostic'')"
  using category_by_table [OF soilbatt_item] by (simp add: soilbatt_item)

text \<open>
  A key of the battery table gets the category \<^verbatim>\<open>diagnostic\<close>, not \<^verbatim>\<open>battery\<close>, and a key of
  neither table gets \<^verbatim>\<open>sensor\<close>, not \<^verbatim>\<open>primary\<close>.
\<close>

theorem category_by_table_counterexample:
  "BATTERY_SENSORS example_tables ''soilbatt1'' = Some [(''name'', ''Soil Battery 1'')] \<and>
   map_sum id (map_option rd_category)
     (process_item example_tables table_ops empty_mapper False False
        \<lparr>it_id = Some ''soilbatt1'', it_val = RawStr ''3''\<rparr>) = Inr (Some ''diagnostic'') \<and>
   ''diagnostic'' \<noteq> ''battery'' \<and>
   BATTERY_SENSORS example_tables ''tempf'' = None \<and> SYSTEM_SENSORS example_tables ''tempf'' = None \<and>
   map_sum id (map_option rd_category)
     (process_item example_tables table_ops empty_mapper False False
        \<lparr>it_id = Some ''tempf'', it_val = RawStr ''46.4 F''\<rparr>) = Inr (Some ''sensor'') \<and>
   ''sensor'' \<noteq> ''primary''"
  by code_simp










section \<open>Properties of the diagnostic readings\<close>








section \<open>Properties of the WS90 detection\<close>












lemma find_wh90_member: "find_wh90 d = Some h \<Longrightarrow> h \<in> set (map fst d)"
proof (induction d)
  case Nil then show ?case by simp
next
  case (Cons a d)
  obtain k v where a: "a = (k, v)" by (cases a)
  with Cons show ?case by (auto split: if_splits)
qed







end
